theory Spec2Isabelle
  imports Main
begin

section \<open>JavaScript values used by the tasks\<close>

text \<open>
  The library \<^verbatim>\<open>src/index.js\<close> registers gulp tasks. Its arguments are untyped
  JavaScript values, so the values that reach \<^verbatim>\<open>adaptPath\<close> and the \<^verbatim>\<open>debug\<close> flag
  are modelled by a datatype with one constructor per kind of value that \<^verbatim>\<open>typeof\<close>
  distinguishes. Objects and functions carry no payload: the code only ever asks for
  their type and their truthiness.
\<close>

datatype jsnum = NaN | Num int

datatype jsval =
    JUndefined
  | JNull
  | JBool bool
  | JNum jsnum
  | JStr string
  | JArr "jsval list"
  | JObj
  | JFun

text \<open>The operator \<^verbatim>\<open>typeof\<close>: it always yields one of these lower-case strings.\<close>

fun js_typeof :: "jsval \<Rightarrow> string" where
  "js_typeof JUndefined = ''undefined''"
| "js_typeof JNull = ''object''"
| "js_typeof (JBool b) = ''boolean''"
| "js_typeof (JNum n) = ''number''"
| "js_typeof (JStr s) = ''string''"
| "js_typeof (JArr xs) = ''object''"
| "js_typeof JObj = ''object''"
| "js_typeof JFun = ''function''"

text \<open>ToBoolean: what \<^verbatim>\<open>!\<close>, \<^verbatim>\<open>!!\<close> and \<^verbatim>\<open>if\<close> look at.\<close>

fun js_truthy :: "jsval \<Rightarrow> bool" where
  "js_truthy JUndefined = False"
| "js_truthy JNull = False"
| "js_truthy (JBool b) = b"
| "js_truthy (JNum NaN) = False"
| "js_truthy (JNum (Num n)) = (n \<noteq> 0)"
| "js_truthy (JStr s) = (s \<noteq> [])"
| "js_truthy (JArr xs) = True"
| "js_truthy JObj = True"
| "js_truthy JFun = True"

text \<open>The prefix operator \<^verbatim>\<open>!\<close>; its result is a boolean.\<close>

definition js_not :: "jsval \<Rightarrow> bool" where
  "js_not v = (\<not> js_truthy v)"

text \<open>
  The operator \<^verbatim>\<open>==\<close> occurs in \<^verbatim>\<open>adaptPath\<close> with two pairs of operand types only:
  string with string, and boolean with string. Two strings are equal when they are the
  same sequence of characters. A boolean and a string are both converted to numbers
  (\<^verbatim>\<open>true\<close> to 1, \<^verbatim>\<open>false\<close> to 0, the string by \<open>string_to_number\<close>) and compared as
  numbers, where \<open>NaN\<close> equals nothing.

  \<open>string_to_number\<close> covers the strings made of white space and decimal digits:
  the empty string is 0 and a run of digits is its value. Every other string is given
  \<open>NaN\<close>; signed, fractional, exponent and radix-prefixed literals and \<^verbatim>\<open>Infinity\<close> are
  numbers in JavaScript and are not represented here. The only string the code converts
  is the literal \<^verbatim>\<open>'Array'\<close>, which is not a numeric literal of any form.
\<close>

definition is_space :: "char \<Rightarrow> bool" where
  "is_space c = (c \<in> set [CHR '' '', CHR 0x09, CHR 0x0A, CHR 0x0B, CHR 0x0C, CHR 0x0D])"

definition is_digit :: "char \<Rightarrow> bool" where
  "is_digit c = (c \<in> set ''0123456789'')"

definition digit_value :: "char \<Rightarrow> nat" where
  "digit_value c = of_char c - 48"

definition trim :: "string \<Rightarrow> string" where
  "trim s = rev (dropWhile is_space (rev (dropWhile is_space s)))"

definition string_to_number :: "string \<Rightarrow> jsnum" where
  "string_to_number s =
     (let t = trim s in
      if t = [] then Num 0
      else if list_all is_digit t
        then Num (int (foldl (\<lambda>acc c. 10 * acc + digit_value c) 0 t))
      else NaN)"

definition bool_to_number :: "bool \<Rightarrow> jsnum" where
  "bool_to_number b = (if b then Num 1 else Num 0)"

fun num_eq :: "jsnum \<Rightarrow> jsnum \<Rightarrow> bool" where
  "num_eq NaN y = False"
| "num_eq x NaN = False"
| "num_eq (Num a) (Num b) = (a = b)"

definition str_loose_eq :: "string \<Rightarrow> string \<Rightarrow> bool" where
  "str_loose_eq a b = (a = b)"

definition bool_loose_eq_str :: "bool \<Rightarrow> string \<Rightarrow> bool" where
  "bool_loose_eq_str b s = num_eq (bool_to_number b) (string_to_number s)"

text \<open>
  Errors are values. \<open>EACCES\<close> and \<open>ENOENT\<close> are the faults of the file system calls,
  \<open>Error\<close> is \<^verbatim>\<open>Error(message)\<close>. \<open>error_text\<close> is the string that \<^verbatim>\<open>'' + e\<close> gives.
\<close>

datatype js_error = EACCES string | ENOENT string | Error string


section \<open>\<^verbatim>\<open>adaptPath\<close>\<close>

text \<open>
  \<^verbatim>\<open>
  function adaptPath(path) {
      if (typeof path == 'String') { path = [path]; }
      if (!typeof path == 'Array') { throw Error("Source directory: Array or String expected"); }
      return path;
  }
  \<close>
  The prefix operators bind tighter than \<^verbatim>\<open>==\<close>: the second condition is
  \<^verbatim>\<open>(!(typeof path)) == 'Array'\<close>.
\<close>

definition adaptPath :: "jsval \<Rightarrow> js_error + jsval" where
  "adaptPath path =
     (let path1 = (if str_loose_eq (js_typeof path) ''String'' then JArr [path] else path)
      in if bool_loose_eq_str (js_not (JStr (js_typeof path1))) ''Array''
         then Inl (Error ''Source directory: Array or String expected'')
         else Inr path1)"

section \<open>The world of the runner tasks\<close>

text \<open>
  \<^verbatim>\<open>runner(gulp, command, buildFile, pidFile, debug)\<close> closes over its arguments and over
  the variable \<^verbatim>\<open>process\<close>. The arguments are the \<open>config\<close>.
\<close>

record config =
  command :: string
  buildFile :: string
  pidFile :: string
  debug :: jsval

text \<open>
  The function literals that the tasks register as listeners:
  \<^item> \<open>ExitObserver\<close>: lines 143 to 146, on \<^verbatim>\<open>'exit'\<close> of the process started by \<^verbatim>\<open>start\<close>;
  \<^item> \<open>KillStdoutClose\<close>: lines 157 to 159, on \<^verbatim>\<open>'close'\<close> of the standard output of the
    \<^verbatim>\<open>kill\<close> command;
  \<^item> \<open>WorkerClose\<close>: lines 167 to 170, on \<^verbatim>\<open>'close'\<close> of the process that \<^verbatim>\<open>restart\<close>
    has just asked to terminate.
\<close>

datatype callback = ExitObserver | KillStdoutClose | WorkerClose

text \<open>
  A \<^verbatim>\<open>ChildProcess\<close> object: what was spawned, the process identifier (\<open>None\<close> is
  \<^verbatim>\<open>undefined\<close>, when the spawn failed), \<^verbatim>\<open>exitCode\<close> (\<open>None\<close> is \<^verbatim>\<open>null\<close>) and the listeners
  registered on it, in the order of registration.
\<close>

record child =
  cmd :: string
  args :: "string list"
  stdio_inherit :: bool
  pid :: "nat option"
  exitCode :: "int option"
  exit_listeners :: "callback list"
  close_listeners :: "callback list"
  stdout_close_listeners :: "callback list"

text \<open>
  A file: its content (\<open>None\<close> when there is no such file), and whether this process may
  read it and write it. For a file that does not exist, \<open>w_ok\<close> says whether it may be
  created.
\<close>

record fs_file =
  content :: "string option"
  r_ok :: bool
  w_ok :: bool

text \<open>What the tasks do to the outside, in the order in which they do it.\<close>

datatype event =
    Spawn string "string list"
  | Kill nat
  | WriteFile string string
  | ConsoleLog string
  | ConsoleError string
  | GulpStart string

text \<open>
  The state: the variable \<^verbatim>\<open>process\<close> (a reference into the list of child process
  objects, \<open>None\<close> for \<^verbatim>\<open>null\<close>), the child process objects in the order of their
  creation, the file system by path, the identifier that the operating system gives to
  the n-th spawned process, the number of \<^verbatim>\<open>fs.access\<close> calls of \<^verbatim>\<open>restart\<close> whose callback
  has not run yet, and the trace of effects.
\<close>

record world =
  process :: "nat option"
  children :: "child list"
  files :: "string \<Rightarrow> fs_file"
  os_pid :: "nat \<Rightarrow> nat option"
  pending_access :: nat
  trace :: "event list"

text \<open>
  A piece of code either runs to its end or throws; what it did before throwing stays
  done, so both outcomes carry the state.
\<close>

datatype outcome = Done world | Threw js_error world

fun world_of :: "outcome \<Rightarrow> world" where
  "world_of (Done w) = w"
| "world_of (Threw e w) = w"

definition emit :: "event \<Rightarrow> world \<Rightarrow> world" where
  "emit ev w = w\<lparr>trace := trace w @ [ev]\<rparr>"

subsection \<open>The calls into Node\<close>

text \<open>Decimal digits of a number, as \<^verbatim>\<open>'' + n\<close> prints a process identifier.\<close>

fun string_of_nat :: "nat \<Rightarrow> string" where
  "string_of_nat n =
     (if n < 10 then [char_of (48 + n)]
      else string_of_nat (n div 10) @ [char_of (48 + n mod 10)])"

declare string_of_nat.simps [simp del]

text \<open>
  \<^verbatim>\<open>fs.writeFileSync(path, data)\<close> turns data that is not a buffer into a string
  (\<^verbatim>\<open>'' + data\<close>) in the versions of Node that run gulp 3. \<open>pid_text\<close> is that string for
  \<^verbatim>\<open>process.pid\<close>.
\<close>

definition pid_text :: "nat option \<Rightarrow> string" where
  "pid_text p = (case p of None \<Rightarrow> ''undefined'' | Some n \<Rightarrow> string_of_nat n)"

text \<open>
  The write replaces the content of the file, or creates the file; it throws when the
  file may not be written or created, and then changes nothing.
\<close>

definition writeFileSync :: "string \<Rightarrow> string \<Rightarrow> world \<Rightarrow> outcome" where
  "writeFileSync path data w =
     (let f = files w path in
      if w_ok f
      then Done (emit (WriteFile path data)
                  (w\<lparr>files := (files w)(path := f\<lparr>content := Some data\<rparr>)\<rparr>))
      else Threw (EACCES path) w)"

definition readFileSync :: "string \<Rightarrow> world \<Rightarrow> js_error + string" where
  "readFileSync path w =
     (let f = files w path in
      case content f of
        None \<Rightarrow> Inl (ENOENT path)
      | Some c \<Rightarrow> if r_ok f then Inr c else Inl (EACCES path))"

text \<open>
  The check that \<^verbatim>\<open>fs.access(path, fs.constants.R_OK | fs.constants.W_OK, cb)\<close> hands to
  its callback: \<open>None\<close> when the file exists and may be read and written.
\<close>

definition fs_access :: "string \<Rightarrow> world \<Rightarrow> js_error option" where
  "fs_access path w =
     (let f = files w path in
      case content f of
        None \<Rightarrow> Some (ENOENT path)
      | Some c \<Rightarrow> if r_ok f \<and> w_ok f then None else Some (EACCES path))"

text \<open>
  \<^verbatim>\<open>spawn(cmd, args, options)\<close> creates a child process object and returns the reference
  to it.
\<close>

definition spawn :: "string \<Rightarrow> string list \<Rightarrow> bool \<Rightarrow> world \<Rightarrow> nat \<times> world" where
  "spawn c as inherit w =
     (let h = length (children w) in
      (h, emit (Spawn c as)
            (w\<lparr>children := children w @
                 [\<lparr>cmd = c, args = as, stdio_inherit = inherit, pid = os_pid w h,
                   exitCode = None, exit_listeners = [], close_listeners = [],
                   stdout_close_listeners = []\<rparr>]\<rparr>)))"

text \<open>\<^verbatim>\<open>child.kill()\<close>: the request to terminate is recorded.\<close>

definition kill :: "nat \<Rightarrow> world \<Rightarrow> world" where
  "kill h w = emit (Kill h) w"

text \<open>\<^verbatim>\<open>child.on('exit', f)\<close>, \<^verbatim>\<open>child.on('close', f)\<close>, \<^verbatim>\<open>child.stdout.on('close', f)\<close>.\<close>

definition on_exit :: "nat \<Rightarrow> callback \<Rightarrow> world \<Rightarrow> world" where
  "on_exit h f w =
     w\<lparr>children := (children w)
        [h := (children w ! h)\<lparr>exit_listeners := exit_listeners (children w ! h) @ [f]\<rparr>]\<rparr>"

definition on_close :: "nat \<Rightarrow> callback \<Rightarrow> world \<Rightarrow> world" where
  "on_close h f w =
     w\<lparr>children := (children w)
        [h := (children w ! h)\<lparr>close_listeners := close_listeners (children w ! h) @ [f]\<rparr>]\<rparr>"

definition stdout_on_close :: "nat \<Rightarrow> callback \<Rightarrow> world \<Rightarrow> world" where
  "stdout_on_close h f w =
     w\<lparr>children := (children w)
        [h := (children w ! h)
           \<lparr>stdout_close_listeners := stdout_close_listeners (children w ! h) @ [f]\<rparr>]\<rparr>"

subsection \<open>The tasks\<close>


text \<open>\<^verbatim>\<open>start\<close>, lines 133 to 147. \<open>start_options\<close> is the array \<^verbatim>\<open>options\<close> at line 140.\<close>

definition start_options :: "config \<Rightarrow> string list" where
  "start_options cfg =
     (if js_truthy (debug cfg) then [''--inspect=[::]:9229''] else []) @ [command cfg]"

definition start :: "config \<Rightarrow> world \<Rightarrow> outcome" where
  "start cfg w =
     (let (h, w1) = spawn ''node'' (start_options cfg) True w;
          w2 = w1\<lparr>process := Some h\<rparr>
      in case writeFileSync (pidFile cfg) (pid_text (pid (children w2 ! h))) w2 of
           Threw e w3 \<Rightarrow> Threw e w3
         | Done w3 \<Rightarrow> Done (on_exit h ExitObserver w3))"

text \<open>
  \<^verbatim>\<open>gulp.start('start')\<close>: gulp 3 runs the function registered under the name
  \<^verbatim>\<open>start\<close>, which is the one above, before the call returns. An exception of the task
  is handed on to the caller here; whether gulp reports it as a task error instead
  changes the tag of the outcome only, not the state it carries.
\<close>

definition gulp_start :: "config \<Rightarrow> world \<Rightarrow> outcome" where
  "gulp_start cfg w = start cfg (emit (GulpStart ''start'') w)"

text \<open>
  \<^verbatim>\<open>restart\<close>, lines 149 to 173. With no handle it calls \<^verbatim>\<open>fs.access\<close>, whose callback
  runs later; \<open>restart_access_callback\<close> is that callback, lines 151 to 161. The buffer
  that \<^verbatim>\<open>fs.readFileSync\<close> returns is the one argument of \<^verbatim>\<open>kill\<close>; \<^verbatim>\<open>spawn\<close> passes its
  text, the content of the file. The \<^verbatim>\<open>else if (process)\<close> of line 162 is the other case
  of \<^verbatim>\<open>!process\<close>.
\<close>

definition restart_access_callback :: "config \<Rightarrow> js_error option \<Rightarrow> world \<Rightarrow> outcome" where
  "restart_access_callback cfg err w =
     (case err of
        Some e \<Rightarrow> Done (emit (ConsoleError ''No application running or PID error'') w)
      | None \<Rightarrow>
          (case readFileSync (pidFile cfg) w of
             Inl e \<Rightarrow> Threw e w
           | Inr p \<Rightarrow>
               (let (h, w1) = spawn ''kill'' [p] False w;
                    w2 = w1\<lparr>process := Some h\<rparr>
                in Done (stdout_on_close h KillStdoutClose w2))))"

definition restart :: "config \<Rightarrow> world \<Rightarrow> outcome" where
  "restart cfg w =
     (case process w of
        None \<Rightarrow> Done (w\<lparr>pending_access := Suc (pending_access w)\<rparr>)
      | Some h \<Rightarrow>
          if exitCode (children w ! h) \<noteq> None
          then gulp_start cfg w
          else Done (on_close h WorkerClose (kill h w)))"

subsection \<open>The listeners and the events that run them\<close>

definition run_callback :: "config \<Rightarrow> callback \<Rightarrow> world \<Rightarrow> outcome" where
  "run_callback cfg f w =
     (case f of
        ExitObserver \<Rightarrow> Done ((emit (ConsoleLog ''*** Process exited ***'') w)\<lparr>process := None\<rparr>)
      | KillStdoutClose \<Rightarrow> gulp_start cfg w
      | WorkerClose \<Rightarrow> gulp_start cfg (w\<lparr>process := None\<rparr>))"

text \<open>
  Emitting an event calls the listeners registered at that moment, in order; a listener
  that throws ends the emission.
\<close>

fun run_listeners :: "config \<Rightarrow> callback list \<Rightarrow> world \<Rightarrow> outcome" where
  "run_listeners cfg [] w = Done w"
| "run_listeners cfg (f # fs) w =
     (case run_callback cfg f w of
        Done w' \<Rightarrow> run_listeners cfg fs w'
      | Threw e w' \<Rightarrow> Threw e w')"

text \<open>
  What the event loop delivers: the completion of an \<^verbatim>\<open>fs.access\<close> call, the exit of a
  child (with its exit code, \<open>None\<close> when a signal ended it), the \<^verbatim>\<open>'close'\<close> of a child
  and the \<^verbatim>\<open>'close'\<close> of a child's standard output. The access check is made on the
  files as they are when its callback runs. A delivery for which nothing waits does
  nothing.
\<close>

datatype delivery =
    AccessCallback
  | ChildExit nat "int option"
  | ChildClose nat
  | ChildStdoutClose nat

definition deliver :: "config \<Rightarrow> delivery \<Rightarrow> world \<Rightarrow> outcome" where
  "deliver cfg d w =
     (case d of
        AccessCallback \<Rightarrow>
          (if pending_access w = 0 then Done w
           else restart_access_callback cfg (fs_access (pidFile cfg) w)
                  (w\<lparr>pending_access := pending_access w - 1\<rparr>))
      | ChildExit h code \<Rightarrow>
          (if h < length (children w)
           then run_listeners cfg (exit_listeners (children w ! h))
                  (w\<lparr>children := (children w)[h := (children w ! h)\<lparr>exitCode := code\<rparr>]\<rparr>)
           else Done w)
      | ChildClose h \<Rightarrow>
          (if h < length (children w)
           then run_listeners cfg (close_listeners (children w ! h)) w
           else Done w)
      | ChildStdoutClose h \<Rightarrow>
          (if h < length (children w)
           then run_listeners cfg (stdout_close_listeners (children w ! h)) w
           else Done w))"

text \<open>The number of times the task \<^verbatim>\<open>start\<close> has been started through gulp.\<close>

definition starts :: "world \<Rightarrow> nat" where
  "starts w = count_list (trace w) (GulpStart ''start'')"

text \<open>The effects that are requests to terminate, and those that are spawns.\<close>

fun is_kill :: "event \<Rightarrow> bool" where
  "is_kill (Kill h) = True"
| "is_kill ev = False"

fun is_spawn :: "event \<Rightarrow> bool" where
  "is_spawn (Spawn c as) = True"
| "is_spawn ev = False"

text \<open>A run of deliveries; an exception that nothing catches ends the controller.\<close>

fun deliver_all :: "config \<Rightarrow> delivery list \<Rightarrow> world \<Rightarrow> outcome" where
  "deliver_all cfg [] w = Done w"
| "deliver_all cfg (d # ds) w =
     (case deliver cfg d w of
        Done w' \<Rightarrow> deliver_all cfg ds w'
      | Threw e w' \<Rightarrow> Threw e w')"

text \<open>
  What a piece of code did, seen from the state \<open>w\<close> it started in: the effects it added
  to the trace and the child process objects it created.
\<close>

definition events_of :: "world \<Rightarrow> outcome \<Rightarrow> event list" where
  "events_of w out = drop (length (trace w)) (trace (world_of out))"

definition spawned_by :: "world \<Rightarrow> outcome \<Rightarrow> child list" where
  "spawned_by w out = drop (length (children w)) (children (world_of out))"

text \<open>
  The kinds of listener that the tasks register: exit observers on \<^verbatim>\<open>'exit'\<close>, the listener
  of \<^verbatim>\<open>restart\<close> on \<^verbatim>\<open>'close'\<close>, and the listener of the access callback on the
  \<^verbatim>\<open>'close'\<close> of the standard output. A state is \<open>tidy\<close> when every child carries only
  these.
\<close>

definition tidy :: "world \<Rightarrow> bool" where
  "tidy w =
     list_all (\<lambda>c. list_all (\<lambda>f. f = ExitObserver) (exit_listeners c)
                \<and> list_all (\<lambda>f. f = WorkerClose) (close_listeners c)
                \<and> list_all (\<lambda>f. f = KillStdoutClose) (stdout_close_listeners c))
       (children w)"

subsection \<open>Example states\<close>

definition example_config :: config where
  "example_config =
     \<lparr>command = ''server.js'', buildFile = ''build.txt'', pidFile = ''app.pid'',
      debug = JBool False\<rparr>"

text \<open>Nothing started yet, no file exists, every file may be created.\<close>

definition fresh_world :: world where
  "fresh_world =
     \<lparr>process = None, children = [],
      files = (\<lambda>p. \<lparr>content = None, r_ok = True, w_ok = True\<rparr>),
      os_pid = (\<lambda>n. Some (4000 + n)), pending_access = 0, trace = []\<rparr>"

text \<open>A worker is running: the state after \<^verbatim>\<open>start\<close> in the fresh state.\<close>

definition running_world :: world where
  "running_world = world_of (start example_config fresh_world)"

text \<open>The handle is still held and its exit code is set.\<close>

definition exited_world :: world where
  "exited_world =
     running_world\<lparr>children := [(children running_world ! 0)\<lparr>exitCode := Some 0\<rparr>]\<rparr>"

text \<open>A new controller: no handle, and the PID file of an earlier run.\<close>

definition stale_world :: world where
  "stale_world =
     fresh_world\<lparr>files := (files fresh_world)
       (''app.pid'' := \<lparr>content = Some ''4000'', r_ok = True, w_ok = True\<rparr>)\<rparr>"

text \<open>The build file and the PID file exist and may not be written.\<close>

definition readonly_world :: world where
  "readonly_world =
     fresh_world\<lparr>files := (\<lambda>p. \<lparr>content = Some ''old'', r_ok = True, w_ok = False\<rparr>)\<rparr>"

section \<open>Properties\<close>

subsection \<open>What the calls and the tasks add to the state\<close>

lemmas call_defs = spawn_def writeFileSync_def readFileSync_def fs_access_def emit_def
  kill_def on_exit_def on_close_def stdout_on_close_def

lemma start_trace:
  "\<exists>evs. trace (world_of (start cfg w)) = trace w @ Spawn ''node'' (start_options cfg) # evs"
  by (simp add: start_def call_defs Let_def)

lemma start_children:
  "\<exists>c. children (world_of (start cfg w)) = children w @ [c] \<and> cmd c = ''node'' \<and>
       args c = start_options cfg \<and> pid c = os_pid w (length (children w)) \<and>
       exitCode c = None \<and> close_listeners c = [] \<and> stdout_close_listeners c = []"
  by (simp add: start_def call_defs Let_def)

lemma start_process: "process (world_of (start cfg w)) = Some (length (children w))"
  by (simp add: start_def call_defs Let_def)

lemma start_starts: "starts (world_of (start cfg w)) = starts w"
  by (simp add: start_def call_defs Let_def starts_def)

lemma start_kills:
  "filter is_kill (trace (world_of (start cfg w))) = filter is_kill (trace w)"
  by (simp add: start_def call_defs Let_def)

text \<open>\<^verbatim>\<open>start\<close> runs to its end exactly when the PID file may be written.\<close>

lemma start_Done_iff: "(\<exists>w'. start cfg w = Done w') = w_ok (files w (pidFile cfg))"
  by (simp add: start_def call_defs Let_def)

lemma gulp_start_trace:
  "\<exists>evs. trace (world_of (gulp_start cfg w)) =
      trace w @ GulpStart ''start'' # Spawn ''node'' (start_options cfg) # evs"
  using start_trace [of cfg "emit (GulpStart ''start'') w"]
  by (simp add: gulp_start_def emit_def)

lemma gulp_start_children:
  "\<exists>c. children (world_of (gulp_start cfg w)) = children w @ [c] \<and> cmd c = ''node'' \<and>
       args c = start_options cfg \<and> pid c = os_pid w (length (children w)) \<and>
       exitCode c = None \<and> close_listeners c = [] \<and> stdout_close_listeners c = []"
  using start_children [of cfg "emit (GulpStart ''start'') w"]
  by (simp add: gulp_start_def emit_def)

lemma gulp_start_process: "process (world_of (gulp_start cfg w)) = Some (length (children w))"
  using start_process [of cfg "emit (GulpStart ''start'') w"]
  by (simp add: gulp_start_def emit_def)

lemma gulp_start_starts: "starts (world_of (gulp_start cfg w)) = Suc (starts w)"
  using start_starts [of cfg "emit (GulpStart ''start'') w"]
  by (simp add: gulp_start_def emit_def starts_def)

lemma gulp_start_kills:
  "filter is_kill (trace (world_of (gulp_start cfg w))) = filter is_kill (trace w)"
  using start_kills [of cfg "emit (GulpStart ''start'') w"]
  by (simp add: gulp_start_def emit_def)

lemma run_callback_trace:
  "\<exists>evs. trace (world_of (run_callback cfg f w)) = trace w @ evs"
proof (cases f)
  case ExitObserver
  then show ?thesis by (simp add: run_callback_def emit_def)
next
  case KillStdoutClose
  then show ?thesis using gulp_start_trace [of cfg w] by (auto simp: run_callback_def)
next
  case WorkerClose
  then show ?thesis using gulp_start_trace [of cfg "w\<lparr>process := None\<rparr>"]
    by (auto simp: run_callback_def)
qed

lemma run_listeners_trace:
  "\<exists>evs. trace (world_of (run_listeners cfg fs w)) = trace w @ evs"
proof (induction fs arbitrary: w)
  case Nil
  then show ?case by simp
next
  case (Cons f fs)
  obtain evs where step: "trace (world_of (run_callback cfg f w)) = trace w @ evs"
    using run_callback_trace by blast
  show ?case
  proof (cases "run_callback cfg f w")
    case (Done w')
    with step Cons.IH [of w'] show ?thesis by auto
  next
    case (Threw e w')
    with step show ?thesis by auto
  qed
qed

lemma restart_access_callback_trace:
  "\<exists>evs. trace (world_of (restart_access_callback cfg err w)) = trace w @ evs"
  by (simp add: restart_access_callback_def call_defs Let_def split: option.split sum.split)

lemma deliver_trace: "\<exists>evs. trace (world_of (deliver cfg d w)) = trace w @ evs"
proof (cases d)
  case AccessCallback
  then show ?thesis
    using restart_access_callback_trace
      [of cfg "fs_access (pidFile cfg) w" "w\<lparr>pending_access := pending_access w - 1\<rparr>"]
    by (auto simp: deliver_def)
next
  case (ChildExit h code)
  then show ?thesis
    using run_listeners_trace [of cfg "exit_listeners (children w ! h)"
        "w\<lparr>children := (children w)[h := (children w ! h)\<lparr>exitCode := code\<rparr>]\<rparr>"]
    by (auto simp: deliver_def)
next
  case (ChildClose h)
  then show ?thesis
    using run_listeners_trace [of cfg "close_listeners (children w ! h)" w]
    by (auto simp: deliver_def)
next
  case (ChildStdoutClose h)
  then show ?thesis
    using run_listeners_trace [of cfg "stdout_close_listeners (children w ! h)" w]
    by (auto simp: deliver_def)
qed

lemma deliver_all_trace: "\<exists>evs. trace (world_of (deliver_all cfg ds w)) = trace w @ evs"
proof (induction ds arbitrary: w)
  case Nil
  then show ?case by simp
next
  case (Cons d ds)
  obtain evs where step: "trace (world_of (deliver cfg d w)) = trace w @ evs"
    using deliver_trace by blast
  show ?case
  proof (cases "deliver cfg d w")
    case (Done w')
    with step Cons.IH [of w'] show ?thesis by auto
  next
    case (Threw e w')
    with step show ?thesis by auto
  qed
qed

lemma run_listeners_single:
  "world_of (run_listeners cfg [f] w) = world_of (run_callback cfg f w)"
  by (cases "run_callback cfg f w") simp_all

lemma restart_running:
  assumes "process w = Some h" and "exitCode (children w ! h) = None"
  shows "restart cfg w = Done (on_close h WorkerClose (kill h w))"
  using assms by (simp add: restart_def)

lemma worker_close_trace:
  "\<exists>evs. events_of w2 (run_callback cfg WorkerClose w2) =
      GulpStart ''start'' # Spawn ''node'' (start_options cfg) # evs"
  using gulp_start_trace [of cfg "w2\<lparr>process := None\<rparr>"]
  by (auto simp: run_callback_def events_of_def)

lemma access_ok_result:
  assumes "process w = None" and "fs_access (pidFile cfg) w = None"
  shows "\<exists>p. content (files w (pidFile cfg)) = Some p \<and>
     deliver cfg AccessCallback (world_of (restart cfg w)) =
       Done (stdout_on_close (length (children w)) KillStdoutClose
              ((snd (spawn ''kill'' [p] False w))\<lparr>process := Some (length (children w))\<rparr>))"
  using assms
  by (auto simp: restart_def deliver_def restart_access_callback_def fs_access_def
      readFileSync_def spawn_def Let_def split: option.splits if_splits)

lemma access_failed_result:
  assumes "process w = None" and "fs_access (pidFile cfg) w = Some e"
  shows "deliver cfg AccessCallback (world_of (restart cfg w)) =
       Done (emit (ConsoleError ''No application running or PID error'') w)"
  using assms
  by (auto simp: restart_def deliver_def restart_access_callback_def fs_access_def emit_def
      Let_def split: option.splits if_splits)

subsection \<open>Deliveries to one child\<close>

lemma run_listeners_one: "run_listeners cfg [f] w = run_callback cfg f w"
  by (cases "run_callback cfg f w") simp_all

lemma deliver_all_one: "deliver_all cfg [d] w = deliver cfg d w"
  by (cases "deliver cfg d w") simp_all

lemma run_listeners_exit_observers:
  "list_all (\<lambda>f. f = ExitObserver) fs \<Longrightarrow>
   \<exists>w'. run_listeners cfg fs w = Done w' \<and> starts w' = starts w
        \<and> children w' = children w \<and> pending_access w' = pending_access w"
proof (induction fs arbitrary: w)
  case Nil
  then show ?case by simp
next
  case (Cons f fs)
  then have f: "f = ExitObserver" and rest: "list_all (\<lambda>f. f = ExitObserver) fs"
    by simp_all
  let ?w1 = "(emit (ConsoleLog ''*** Process exited ***'') w)\<lparr>process := None\<rparr>"
  have step: "run_callback cfg f w = Done ?w1"
    using f by (simp add: run_callback_def)
  obtain w' where "run_listeners cfg fs ?w1 = Done w'" and "starts w' = starts ?w1"
    and "children w' = children ?w1" and "pending_access w' = pending_access ?w1"
    using Cons.IH [OF rest] by blast
  then show ?case
    using step by (simp add: starts_def emit_def)
qed

lemma deliver_exit_observers:
  assumes "h < length (children w)"
    and "list_all (\<lambda>f. f = ExitObserver) (exit_listeners (children w ! h))"
  shows "\<exists>w'. deliver cfg (ChildExit h code) w = Done w' \<and> starts w' = starts w
       \<and> children w' = (children w)[h := (children w ! h)\<lparr>exitCode := code\<rparr>]
       \<and> pending_access w' = pending_access w"
proof -
  let ?w0 = "w\<lparr>children := (children w)[h := (children w ! h)\<lparr>exitCode := code\<rparr>]\<rparr>"
  obtain w' where "run_listeners cfg (exit_listeners (children w ! h)) ?w0 = Done w'"
    and "starts w' = starts ?w0" and "children w' = children ?w0"
    and "pending_access w' = pending_access ?w0"
    using run_listeners_exit_observers [OF assms(2)] by blast
  then show ?thesis
    using assms(1) by (simp add: deliver_def starts_def)
qed

lemma deliver_close_worker:
  "h < length (children w) \<Longrightarrow> close_listeners (children w ! h) = [WorkerClose] \<Longrightarrow>
   deliver cfg (ChildClose h) w = gulp_start cfg (w\<lparr>process := None\<rparr>)"
  by (simp add: deliver_def run_listeners_one run_callback_def del: run_listeners.simps)

lemma deliver_stdout_close_kill:
  "h < length (children w) \<Longrightarrow> stdout_close_listeners (children w ! h) = [KillStdoutClose] \<Longrightarrow>
   deliver cfg (ChildStdoutClose h) w = gulp_start cfg w"
  by (simp add: deliver_def run_listeners_one run_callback_def del: run_listeners.simps)

lemma gulp_start_keeps_children:
  "h < length (children w) \<Longrightarrow>
   children (world_of (gulp_start cfg w)) ! h = children w ! h
   \<and> h < length (children (world_of (gulp_start cfg w)))"
proof -
  assume h: "h < length (children w)"
  obtain c where "children (world_of (gulp_start cfg w)) = children w @ [c]"
    using gulp_start_children by blast
  then show ?thesis using h by (simp add: nth_append)
qed

lemma deliver_exit_nil:
  "h < length (children w) \<Longrightarrow> exit_listeners (children w ! h) = [] \<Longrightarrow>
   deliver cfg (ChildExit h code) w =
     Done (w\<lparr>children := (children w)[h := (children w ! h)\<lparr>exitCode := code\<rparr>]\<rparr>)"
  by (simp add: deliver_def)

lemma starts_then:
  assumes "starts (world_of out) = n"
    and "\<And>w'. out = Done w' \<Longrightarrow> starts (world_of (deliver_all cfg ds w')) = starts w'"
  shows "starts (world_of (case out of Done w' \<Rightarrow> deliver_all cfg ds w'
                           | Threw e w' \<Rightarrow> Threw e w')) = n"
  using assms by (cases out) auto

lemma quiet_child:
  assumes "h < length (children w)" and "exit_listeners (children w ! h) = []"
    and "close_listeners (children w ! h) = []"
  shows "starts (world_of (deliver_all cfg [ChildExit h code, ChildClose h] w)) = starts w"
    and "starts (world_of (deliver_all cfg [ChildClose h] w)) = starts w"
  using assms by (simp_all add: deliver_def starts_def)

lemma kill_helper_runs:
  assumes "k < length (children w2)"
    and "exit_listeners (children w2 ! k) = []"
    and "close_listeners (children w2 ! k) = []"
    and "stdout_close_listeners (children w2 ! k) = [KillStdoutClose]"
  shows "starts (world_of (deliver_all cfg [ChildExit k code] w2)) = starts w2"
    and "starts (world_of (deliver_all cfg [ChildStdoutClose k] w2)) = Suc (starts w2)"
    and "starts (world_of (deliver_all cfg
            [ChildExit k code, ChildStdoutClose k, ChildClose k] w2)) = Suc (starts w2)"
    and "starts (world_of (deliver_all cfg
            [ChildStdoutClose k, ChildExit k code, ChildClose k] w2)) = Suc (starts w2)"
proof -
  show "starts (world_of (deliver_all cfg [ChildExit k code] w2)) = starts w2"
    using assms by (simp add: deliver_def starts_def)
  show "starts (world_of (deliver_all cfg [ChildStdoutClose k] w2)) = Suc (starts w2)"
    using assms by (simp add: deliver_all_one deliver_stdout_close_kill gulp_start_starts
        del: deliver_all.simps)
  have quiet_after: "starts (world_of (deliver_all cfg ds w')) = starts w'"
    if "gulp_start cfg w = Done w'" and "k < length (children w)"
      and "exit_listeners (children w ! k) = []" and "close_listeners (children w ! k) = []"
      and "ds = [ChildExit k code, ChildClose k] \<or> ds = [ChildClose k]"
    for w w' ds
  proof -
    have "children w' ! k = children w ! k \<and> k < length (children w')"
      using gulp_start_keeps_children [of k w cfg] that(1,2) by simp
    then show ?thesis
      using that(3,4,5) quiet_child(1) [of k w' cfg code] quiet_child(2) [of k w' cfg]
      by auto
  qed
  let ?we = "w2\<lparr>children := (children w2)[k := (children w2 ! k)\<lparr>exitCode := code\<rparr>]\<rparr>"
  have e: "deliver cfg (ChildExit k code) w2 = Done ?we"
    using assms by (simp add: deliver_exit_nil)
  have we: "k < length (children ?we)" "exit_listeners (children ?we ! k) = []"
    "close_listeners (children ?we ! k) = []"
    "stdout_close_listeners (children ?we ! k) = [KillStdoutClose]"
    "starts ?we = starts w2"
    using assms by (simp_all add: starts_def)
  have "deliver_all cfg [ChildExit k code, ChildStdoutClose k, ChildClose k] w2 =
        (case gulp_start cfg ?we of Done w' \<Rightarrow> deliver_all cfg [ChildClose k] w'
                                 | Threw e w' \<Rightarrow> Threw e w')"
    using e we deliver_stdout_close_kill [of k ?we cfg] by simp
  moreover have "starts (world_of (case gulp_start cfg ?we of
        Done w' \<Rightarrow> deliver_all cfg [ChildClose k] w' | Threw e w' \<Rightarrow> Threw e w')) =
      Suc (starts ?we)"
  proof (rule starts_then)
    show "starts (world_of (gulp_start cfg ?we)) = Suc (starts ?we)"
      by (rule gulp_start_starts)
    fix w' assume "gulp_start cfg ?we = Done w'"
    then show "starts (world_of (deliver_all cfg [ChildClose k] w')) = starts w'"
      using quiet_after [of ?we w' "[ChildClose k]"] we(1,2,3) by simp
  qed
  ultimately show "starts (world_of (deliver_all cfg
            [ChildExit k code, ChildStdoutClose k, ChildClose k] w2)) = Suc (starts w2)"
    using we(5) by simp
  have "deliver_all cfg [ChildStdoutClose k, ChildExit k code, ChildClose k] w2 =
        (case gulp_start cfg w2 of
           Done w' \<Rightarrow> deliver_all cfg [ChildExit k code, ChildClose k] w'
         | Threw e w' \<Rightarrow> Threw e w')"
    using assms deliver_stdout_close_kill [of k w2 cfg] by simp
  moreover have "starts (world_of (case gulp_start cfg w2 of
        Done w' \<Rightarrow> deliver_all cfg [ChildExit k code, ChildClose k] w'
      | Threw e w' \<Rightarrow> Threw e w')) = Suc (starts w2)"
  proof (rule starts_then)
    show "starts (world_of (gulp_start cfg w2)) = Suc (starts w2)"
      by (rule gulp_start_starts)
    fix w' assume "gulp_start cfg w2 = Done w'"
    then show "starts (world_of (deliver_all cfg [ChildExit k code, ChildClose k] w')) =
        starts w'"
      using quiet_after [of w2 w' "[ChildExit k code, ChildClose k]"] assms(1,2,3) by simp
  qed
  ultimately show "starts (world_of (deliver_all cfg
            [ChildStdoutClose k, ChildExit k code, ChildClose k] w2)) = Suc (starts w2)"
    by simp
qed

lemma running_handle_runs:
  assumes "h < length (children w1)"
    and "list_all (\<lambda>f. f = ExitObserver) (exit_listeners (children w1 ! h))"
    and "close_listeners (children w1 ! h) = [WorkerClose]"
  shows "starts (world_of (deliver cfg (ChildExit h code) w1)) = starts w1"
    and "starts (world_of (deliver cfg (ChildClose h) w1)) = Suc (starts w1)"
    and "starts (world_of (deliver_all cfg [ChildExit h code, ChildClose h] w1)) =
           Suc (starts w1)"
proof -
  obtain we where e: "deliver cfg (ChildExit h code) w1 = Done we"
    and se: "starts we = starts w1"
    and ce: "children we = (children w1)[h := (children w1 ! h)\<lparr>exitCode := code\<rparr>]"
    using deliver_exit_observers [OF assms(1,2)] by blast
  show "starts (world_of (deliver cfg (ChildExit h code) w1)) = starts w1"
    using e se by simp
  show "starts (world_of (deliver cfg (ChildClose h) w1)) = Suc (starts w1)"
    using assms(1,3) gulp_start_starts [of cfg "w1\<lparr>process := None\<rparr>"]
    by (simp add: deliver_close_worker starts_def)
  have he: "h < length (children we)" "close_listeners (children we ! h) = [WorkerClose]"
    using ce assms(1,3) by simp_all
  have "deliver_all cfg [ChildExit h code, ChildClose h] w1 =
        deliver_all cfg [ChildClose h] we"
    using e by simp
  then have "deliver_all cfg [ChildExit h code, ChildClose h] w1 =
        deliver cfg (ChildClose h) we"
    by (simp only: deliver_all_one)
  then show "starts (world_of (deliver_all cfg [ChildExit h code, ChildClose h] w1)) =
           Suc (starts w1)"
    using he se gulp_start_starts [of cfg "we\<lparr>process := None\<rparr>"]
    by (simp add: deliver_close_worker starts_def)
qed

lemma start_new_child:
  "\<exists>c. children (world_of (start cfg w)) = children w @ [c]
       \<and> list_all (\<lambda>f. f = ExitObserver) (exit_listeners c)
       \<and> close_listeners c = [] \<and> stdout_close_listeners c = []"
  by (simp add: start_def call_defs Let_def)

lemma start_pending: "pending_access (world_of (start cfg w)) = pending_access w"
  by (simp add: start_def call_defs Let_def)

lemma gulp_start_new_child:
  "\<exists>c. children (world_of (gulp_start cfg w)) = children w @ [c]
       \<and> list_all (\<lambda>f. f = ExitObserver) (exit_listeners c)
       \<and> close_listeners c = [] \<and> stdout_close_listeners c = []"
  using start_new_child [of cfg "emit (GulpStart ''start'') w"]
  by (simp add: gulp_start_def emit_def)

lemma gulp_start_pending: "pending_access (world_of (gulp_start cfg w)) = pending_access w"
  using start_pending [of cfg "emit (GulpStart ''start'') w"]
  by (simp add: gulp_start_def emit_def)

subsection \<open>The kinds of listener are kept\<close>

text \<open>
  In every state that the tasks and the deliveries reach from a tidy one, and so from the
  fresh controller, the listeners on \<^verbatim>\<open>'exit'\<close> are exit observers.
\<close>

lemma list_all_update:
  assumes "list_all P xs" and "h < length xs \<Longrightarrow> P x"
  shows "list_all P (xs[h := x])"
proof (cases "h < length xs")
  case True
  then show ?thesis
    using assms set_update_subset_insert [of xs h x] by (auto simp: list_all_iff)
next
  case False
  then have "xs[h := x] = xs" by (simp add: list_update_beyond)
  then show ?thesis using assms(1) by simp
qed

lemma tidy_nth:
  "tidy w \<Longrightarrow> h < length (children w) \<Longrightarrow>
     list_all (\<lambda>f. f = ExitObserver) (exit_listeners (children w ! h))
     \<and> list_all (\<lambda>f. f = WorkerClose) (close_listeners (children w ! h))
     \<and> list_all (\<lambda>f. f = KillStdoutClose) (stdout_close_listeners (children w ! h))"
  by (simp add: tidy_def list_all_length)

lemma tidy_fresh: "tidy fresh_world"
  by (simp add: tidy_def fresh_world_def)

lemma tidy_start: "tidy w \<Longrightarrow> tidy (world_of (start cfg w))"
  by (auto simp: tidy_def start_def call_defs Let_def nth_append intro!: list_all_update)

lemma tidy_gulp_start: "tidy w \<Longrightarrow> tidy (world_of (gulp_start cfg w))"
  using tidy_start [of "emit (GulpStart ''start'') w" cfg]
  by (simp add: gulp_start_def tidy_def emit_def)

lemma tidy_restart: "tidy w \<Longrightarrow> tidy (world_of (restart cfg w))"
proof (cases "process w")
  case None
  assume "tidy w"
  then show ?thesis using None by (simp add: restart_def tidy_def)
next
  case (Some h)
  assume t: "tidy w"
  show ?thesis
  proof (cases "exitCode (children w ! h) = None")
    case True
    have "tidy (on_close h WorkerClose (kill h w))"
      using t tidy_nth [OF t, of h]
      by (auto simp: tidy_def on_close_def kill_def emit_def intro!: list_all_update)
    then show ?thesis using Some True by (simp add: restart_def)
  next
    case False
    then show ?thesis using Some t tidy_gulp_start [of w cfg] by (auto simp: restart_def)
  qed
qed

lemma tidy_run_callback: "tidy w \<Longrightarrow> tidy (world_of (run_callback cfg f w))"
proof (cases f)
  case ExitObserver
  assume "tidy w"
  then show ?thesis using ExitObserver by (simp add: run_callback_def tidy_def emit_def)
next
  case KillStdoutClose
  assume "tidy w"
  then show ?thesis using KillStdoutClose tidy_gulp_start [of w cfg]
    by (simp add: run_callback_def)
next
  case WorkerClose
  assume "tidy w"
  then have "tidy (w\<lparr>process := None\<rparr>)" by (simp add: tidy_def)
  then show ?thesis using WorkerClose tidy_gulp_start [of "w\<lparr>process := None\<rparr>" cfg]
    by (simp add: run_callback_def)
qed

lemma tidy_run_listeners: "tidy w \<Longrightarrow> tidy (world_of (run_listeners cfg fs w))"
proof (induction fs arbitrary: w)
  case Nil
  then show ?case by simp
next
  case (Cons f fs)
  have step: "tidy (world_of (run_callback cfg f w))"
    using Cons.prems by (rule tidy_run_callback)
  show ?case
  proof (cases "run_callback cfg f w")
    case (Done w')
    then show ?thesis using step Cons.IH [of w'] by simp
  next
    case (Threw e w')
    then show ?thesis using step by simp
  qed
qed

lemma tidy_access_callback:
  "tidy w \<Longrightarrow> tidy (world_of (restart_access_callback cfg err w))"
  by (auto simp: tidy_def restart_access_callback_def call_defs Let_def nth_append
      split: option.splits sum.splits intro!: list_all_update)

lemma tidy_deliver: "tidy w \<Longrightarrow> tidy (world_of (deliver cfg d w))"
proof (cases d)
  case AccessCallback
  assume t: "tidy w"
  then have "tidy (w\<lparr>pending_access := pending_access w - 1\<rparr>)" by (simp add: tidy_def)
  then show ?thesis
    using AccessCallback t tidy_access_callback by (simp add: deliver_def)
next
  case (ChildExit h code)
  assume t: "tidy w"
  show ?thesis
  proof (cases "h < length (children w)")
    case True
    have "tidy (w\<lparr>children := (children w)[h := (children w ! h)\<lparr>exitCode := code\<rparr>]\<rparr>)"
      using t tidy_nth [OF t True] by (auto simp: tidy_def intro!: list_all_update)
    then show ?thesis using ChildExit True tidy_run_listeners by (simp add: deliver_def)
  next
    case False
    then show ?thesis using ChildExit t by (simp add: deliver_def)
  qed
next
  case (ChildClose h)
  assume "tidy w"
  then show ?thesis using ChildClose tidy_run_listeners by (simp add: deliver_def)
next
  case (ChildStdoutClose h)
  assume "tidy w"
  then show ?thesis using ChildStdoutClose tidy_run_listeners by (simp add: deliver_def)
qed

subsection \<open>The example states, evaluated\<close>

lemma example_config_simps:
  "command example_config = ''server.js''" "buildFile example_config = ''build.txt''"
  "pidFile example_config = ''app.pid''" "debug example_config = JBool False"
  by (simp_all add: example_config_def)

lemma string_of_nat_4000: "string_of_nat 4000 = ''4000''"
  by code_simp

lemma start_fresh: "start example_config fresh_world = Done running_world"
  by (simp add: running_world_def start_def call_defs Let_def fresh_world_def
      example_config_def)

lemma running_world_simps:
  "process running_world = Some 0"
  "children running_world =
     [\<lparr>cmd = ''node'', args = [''server.js''], stdio_inherit = True, pid = Some 4000,
       exitCode = None, exit_listeners = [ExitObserver], close_listeners = [],
       stdout_close_listeners = []\<rparr>]"
  "trace running_world = [Spawn ''node'' [''server.js''], WriteFile ''app.pid'' ''4000'']"
  "content (files running_world ''app.pid'') = Some ''4000''"
  by (simp_all add: running_world_def start_def start_options_def call_defs Let_def
      fresh_world_def example_config_def pid_text_def string_of_nat_4000)

lemma exited_world_simps:
  "process exited_world = Some 0"
  "children exited_world =
     [\<lparr>cmd = ''node'', args = [''server.js''], stdio_inherit = True, pid = Some 4000,
       exitCode = Some 0, exit_listeners = [ExitObserver], close_listeners = [],
       stdout_close_listeners = []\<rparr>]"
  "trace exited_world = [Spawn ''node'' [''server.js''], WriteFile ''app.pid'' ''4000'']"
  by (simp_all add: exited_world_def running_world_simps)

lemma fresh_world_simps:
  "process fresh_world = None" "children fresh_world = []" "trace fresh_world = []"
  "pending_access fresh_world = 0"
  "files fresh_world p = \<lparr>content = None, r_ok = True, w_ok = True\<rparr>"
  by (simp_all add: fresh_world_def)

lemma stale_world_simps:
  "process stale_world = None" "children stale_world = []" "trace stale_world = []"
  "files stale_world ''app.pid'' = \<lparr>content = Some ''4000'', r_ok = True, w_ok = True\<rparr>"
  "fs_access (pidFile example_config) stale_world = None"
  by (simp_all add: stale_world_def fresh_world_def fs_access_def example_config_def)


lemma example_starts:
  "starts exited_world = 0" "starts running_world = 0" "starts stale_world = 0"
  "starts fresh_world = 0"
  by (simp_all add: starts_def exited_world_simps running_world_simps stale_world_simps
      fresh_world_simps)

text \<open>
  Two whole runs. A worker is running and \<^verbatim>\<open>restart\<close> is invoked; the worker exits on
  the signal and its \<^verbatim>\<open>'close'\<close> follows. And: a new controller finds the PID file of an
  earlier run, the \<^verbatim>\<open>kill\<close> command exits and its output closes.
\<close>

lemmas run_defs = events_of_def deliver_def restart_def run_callback_def gulp_start_def
  start_def start_options_def restart_access_callback_def call_defs pid_text_def Let_def
  running_world_def stale_world_def fresh_world_def example_config_def

lemma string_of_nat_4001: "string_of_nat 4001 = ''4001''"
  by code_simp

lemma example_restart_run:
  "events_of running_world
     (deliver_all example_config [ChildExit 0 None, ChildClose 0]
        (world_of (restart example_config running_world))) =
   [Kill 0, ConsoleLog ''*** Process exited ***'', GulpStart ''start'',
    Spawn ''node'' [''server.js''], WriteFile ''app.pid'' ''4001'']"
  by (simp add: run_defs string_of_nat_4000 string_of_nat_4001)

lemma example_stale_run:
  "events_of stale_world
     (deliver_all example_config
        [AccessCallback, ChildExit 0 (Some 0), ChildStdoutClose 0, ChildClose 0]
        (world_of (restart example_config stale_world))) =
   [Spawn ''kill'' [''4000''], GulpStart ''start'',
    Spawn ''node'' [''server.js''], WriteFile ''app.pid'' ''4001'']"
  by (simp add: run_defs string_of_nat_4000 string_of_nat_4001)

subsection \<open>The tasks\<close>

text \<open>
  C1: in a state where a handle is held and its exit code is not set, \<^verbatim>\<open>restart\<close> sends
  the request to terminate to that handle and registers one listener on its \<^verbatim>\<open>'close'\<close>
  event, and does nothing else: it adds the single effect \<open>Kill h\<close> and creates no
  process. Whatever is delivered afterwards, every later effect comes after that
  \<open>Kill h\<close>; the registered listener is the code that spawns the new worker.
\<close>

theorem restart_kills_before_spawn:
  assumes "process w = Some h" and "h < length (children w)"
    and "exitCode (children w ! h) = None"
  shows "restart cfg w = Done (on_close h WorkerClose (kill h w))
     \<and> events_of w (restart cfg w) = [Kill h]
     \<and> spawned_by w (restart cfg w) = []
     \<and> close_listeners (children (world_of (restart cfg w)) ! h) =
         close_listeners (children w ! h) @ [WorkerClose]
     \<and> (\<forall>ds. \<exists>evs. events_of w (deliver_all cfg ds (world_of (restart cfg w))) = Kill h # evs)
     \<and> (\<forall>w2. \<exists>evs. events_of w2 (run_callback cfg WorkerClose w2) =
            GulpStart ''start'' # Spawn ''node'' (start_options cfg) # evs)"
proof -
  let ?w1 = "on_close h WorkerClose (kill h w)"
  have r: "restart cfg w = Done ?w1"
    using assms by (simp add: restart_running)
  have t1: "trace ?w1 = trace w @ [Kill h]"
    by (simp add: on_close_def kill_def emit_def)
  have later: "\<exists>evs. events_of w (deliver_all cfg ds ?w1) = Kill h # evs" for ds
  proof -
    obtain evs where "trace (world_of (deliver_all cfg ds ?w1)) = trace ?w1 @ evs"
      using deliver_all_trace by blast
    then show ?thesis using t1 by (simp add: events_of_def)
  qed
  have ev: "events_of w (Done ?w1) = [Kill h]"
    using t1 by (simp add: events_of_def)
  have sp: "spawned_by w (Done ?w1) = []"
    by (simp add: spawned_by_def on_close_def kill_def emit_def)
  have cl: "close_listeners (children ?w1 ! h) = close_listeners (children w ! h) @ [WorkerClose]"
    using assms(2) by (simp add: on_close_def kill_def emit_def)
  show ?thesis
    using r ev sp cl later worker_close_trace by simp
qed

theorem restart_kills_before_spawn_witness:
  "process running_world = Some 0 \<and> 0 < length (children running_world)
   \<and> exitCode (children running_world ! 0) = None
   \<and> events_of running_world (restart example_config running_world) = [Kill 0]
   \<and> spawned_by running_world (restart example_config running_world) = []"
proof -
  have h1: "process running_world = Some 0" by (simp add: running_world_simps)
  have h2: "0 < length (children running_world)" by (simp add: running_world_simps)
  have h3: "exitCode (children running_world ! 0) = None" by (simp add: running_world_simps)
  show ?thesis
    using restart_kills_before_spawn [OF h1 h2 h3, of example_config] h1 h2 h3 by blast
qed

text \<open>
  C2: whatever the PID file held before, when \<^verbatim>\<open>start\<close> has run to its end the PID file
  holds exactly the decimal identifier of the process that this call spawned, and the
  variable \<^verbatim>\<open>process\<close> refers to that process.
\<close>

theorem start_writes_pid:
  assumes "start cfg w = Done w'"
    and "pid (children w' ! length (children w)) = Some p"
  shows "content (files w' (pidFile cfg)) = Some (string_of_nat p)
         \<and> process w' = Some (length (children w))
         \<and> cmd (children w' ! length (children w)) = ''node''"
  using assms
  by (auto simp: start_def call_defs Let_def pid_text_def split: if_splits)

theorem start_writes_pid_witness:
  "start example_config fresh_world = Done running_world
   \<and> pid (children running_world ! length (children fresh_world)) = Some 4000
   \<and> content (files running_world (pidFile example_config)) = Some ''4000''"
proof -
  have h1: "start example_config fresh_world = Done running_world" by (rule start_fresh)
  have h2: "pid (children running_world ! length (children fresh_world)) = Some 4000"
    by (simp add: running_world_simps fresh_world_simps)
  show ?thesis
    using start_writes_pid [OF h1 h2] h1 h2 string_of_nat_4000 by simp
qed

text \<open>
  C3: with no handle held and a PID file that is missing or may not be both read and
  written, \<^verbatim>\<open>restart\<close> only issues the access check, and the callback of that check
  only reports the error on the console: no process is spawned, and the files, the
  handle and the child processes are as they were.
\<close>

theorem restart_unreadable_pid_file:
  assumes "process w = None"
    and "content (files w (pidFile cfg)) = None \<or> \<not> r_ok (files w (pidFile cfg))
         \<or> \<not> w_ok (files w (pidFile cfg))"
  shows "restart cfg w = Done (w\<lparr>pending_access := Suc (pending_access w)\<rparr>)
     \<and> deliver cfg AccessCallback (world_of (restart cfg w)) =
         Done (emit (ConsoleError ''No application running or PID error'') w)"
  using assms
  by (auto simp: restart_def deliver_def restart_access_callback_def fs_access_def emit_def
      Let_def split: option.splits)

theorem restart_unreadable_pid_file_witness:
  "process fresh_world = None
   \<and> content (files fresh_world (pidFile example_config)) = None
   \<and> restart example_config fresh_world = Done (fresh_world\<lparr>pending_access := 1\<rparr>)
   \<and> deliver example_config AccessCallback (world_of (restart example_config fresh_world)) =
       Done (fresh_world\<lparr>trace := [ConsoleError ''No application running or PID error'']\<rparr>)"
proof -
  have h1: "process fresh_world = None" by (simp add: fresh_world_simps)
  have h2: "content (files fresh_world (pidFile example_config)) = None"
    by (simp add: fresh_world_simps)
  then have h2': "content (files fresh_world (pidFile example_config)) = None
       \<or> \<not> r_ok (files fresh_world (pidFile example_config))
       \<or> \<not> w_ok (files fresh_world (pidFile example_config))"
    by simp
  note t = restart_unreadable_pid_file [OF h1 h2']
  have a: "restart example_config fresh_world = Done (fresh_world\<lparr>pending_access := 1\<rparr>)"
    using t [THEN conjunct1] by (simp add: fresh_world_simps)
  have b: "deliver example_config AccessCallback
      (world_of (restart example_config fresh_world)) =
       Done (fresh_world\<lparr>trace := [ConsoleError ''No application running or PID error'']\<rparr>)"
    using t [THEN conjunct2] by (simp add: emit_def fresh_world_simps)
  show ?thesis
    using h1 h2 a b by blast
qed

text \<open>
  C4: with a handle held whose exit code is set, \<^verbatim>\<open>restart\<close> is exactly
  \<^verbatim>\<open>gulp.start('start')\<close>: it starts the task at once, which spawns one new \<^verbatim>\<open>node\<close>
  process, and it sends no request to terminate.
\<close>

theorem restart_exited_handle:
  assumes "process w = Some h" and "h < length (children w)"
    and "exitCode (children w ! h) = Some c"
  shows "restart cfg w = gulp_start cfg w
     \<and> filter is_kill (events_of w (restart cfg w)) = []
     \<and> (\<exists>evs. events_of w (restart cfg w) =
           GulpStart ''start'' # Spawn ''node'' (start_options cfg) # evs)
     \<and> map cmd (spawned_by w (restart cfg w)) = [''node'']"
proof -
  have r: "restart cfg w = gulp_start cfg w"
    using assms by (simp add: restart_def)
  obtain evs where t: "trace (world_of (gulp_start cfg w)) =
      trace w @ GulpStart ''start'' # Spawn ''node'' (start_options cfg) # evs"
    using gulp_start_trace by blast
  obtain c where ch: "children (world_of (gulp_start cfg w)) = children w @ [c]" "cmd c = ''node''"
    using gulp_start_children by blast
  have k: "filter is_kill (events_of w (gulp_start cfg w)) = []"
    using gulp_start_kills [of cfg w] t by (simp add: events_of_def)
  show ?thesis
    using r t ch k by (simp add: events_of_def spawned_by_def)
qed

theorem restart_exited_handle_witness:
  "process exited_world = Some 0 \<and> 0 < length (children exited_world)
   \<and> exitCode (children exited_world ! 0) = Some 0
   \<and> restart example_config exited_world = gulp_start example_config exited_world
   \<and> filter is_kill (events_of exited_world (restart example_config exited_world)) = []
   \<and> map cmd (spawned_by exited_world (restart example_config exited_world)) = [''node'']"
proof -
  have h1: "process exited_world = Some 0" by (simp add: exited_world_simps)
  have h2: "0 < length (children exited_world)" by (simp add: exited_world_simps)
  have h3: "exitCode (children exited_world ! 0) = Some 0" by (simp add: exited_world_simps)
  show ?thesis
    using restart_exited_handle [OF h1 h2 h3, of example_config] h1 h2 h3 by blast
qed

text \<open>
  C5: for every command, \<^verbatim>\<open>start\<close> spawns one process, with the argument list
  \<^verbatim>\<open>[command]\<close> when \<^verbatim>\<open>debug\<close> is \<^verbatim>\<open>false\<close> and \<^verbatim>\<open>['--inspect=[::]:9229', command]\<close> when
  \<^verbatim>\<open>debug\<close> is \<^verbatim>\<open>true\<close>.
\<close>

theorem start_argument_list:
  "filter is_spawn
     (events_of w (start \<lparr>command = c, buildFile = b, pidFile = p, debug = JBool False\<rparr> w))
     = [Spawn ''node'' [c]]
   \<and> map args
     (spawned_by w (start \<lparr>command = c, buildFile = b, pidFile = p, debug = JBool False\<rparr> w))
     = [[c]]
   \<and> filter is_spawn
     (events_of w (start \<lparr>command = c, buildFile = b, pidFile = p, debug = JBool True\<rparr> w))
     = [Spawn ''node'' [''--inspect=[::]:9229'', c]]
   \<and> map args
     (spawned_by w (start \<lparr>command = c, buildFile = b, pidFile = p, debug = JBool True\<rparr> w))
     = [[''--inspect=[::]:9229'', c]]"
  by (simp add: start_def start_options_def call_defs Let_def events_of_def spawned_by_def)

text \<open>
  C6: an invocation of \<^verbatim>\<open>start\<close> whose write of the PID file succeeds runs to its end and
  has registered the exit observer on the process it spawned, and nothing else on its
  \<^verbatim>\<open>'exit'\<close> event. The observer, in whatever state it runs, logs the notice and sets the
  variable \<^verbatim>\<open>process\<close> to \<^verbatim>\<open>null\<close>; so does the delivery of the exit of that process.
\<close>

theorem start_registers_exit_observer:
  assumes "w_ok (files w (pidFile cfg))"
  shows "\<exists>w'. start cfg w = Done w'
     \<and> process w' = Some (length (children w))
     \<and> exit_listeners (children w' ! length (children w)) = [ExitObserver]
     \<and> (\<forall>w2. run_callback cfg ExitObserver w2 =
            Done ((emit (ConsoleLog ''*** Process exited ***'') w2)\<lparr>process := None\<rparr>))
     \<and> (\<forall>code. \<exists>w''. deliver cfg (ChildExit (length (children w)) code) w' = Done w''
            \<and> process w'' = None
            \<and> trace w'' = trace w' @ [ConsoleLog ''*** Process exited ***''])"
  using assms
  by (simp add: start_def call_defs Let_def run_callback_def deliver_def)

theorem start_registers_exit_observer_witness:
  "w_ok (files fresh_world (pidFile example_config))
   \<and> start example_config fresh_world = Done running_world
   \<and> process running_world = Some 0
   \<and> exit_listeners (children running_world ! 0) = [ExitObserver]
   \<and> process (world_of (deliver example_config (ChildExit 0 (Some 0)) running_world)) = None
   \<and> events_of running_world (deliver example_config (ChildExit 0 (Some 0)) running_world) =
       [ConsoleLog ''*** Process exited ***'']"
proof -
  have h: "w_ok (files fresh_world (pidFile example_config))"
    by (simp add: fresh_world_simps)
  have len: "length (children fresh_world) = 0" by (simp add: fresh_world_simps)
  obtain w' where s: "start example_config fresh_world = Done w'"
    and p: "process w' = Some 0"
    and l: "exit_listeners (children w' ! 0) = [ExitObserver]"
    and d: "\<forall>code. \<exists>w''. deliver example_config (ChildExit 0 code) w' = Done w''
            \<and> process w'' = None
            \<and> trace w'' = trace w' @ [ConsoleLog ''*** Process exited ***'']"
    using start_registers_exit_observer [OF h] unfolding len by blast
  have w': "w' = running_world"
    using s start_fresh by simp
  obtain w'' where "deliver example_config (ChildExit 0 (Some 0)) w' = Done w''"
    and "process w'' = None"
    and "trace w'' = trace w' @ [ConsoleLog ''*** Process exited ***'']"
    using d by blast
  then show ?thesis
    using h s p l w' by (simp add: events_of_def)
qed

text \<open>
  When the PID file may not be written, \<^verbatim>\<open>fs.writeFileSync\<close> throws at line 141: the
  process has been spawned and the handle is held, and line 143 is not reached. No
  observer is registered; the exit of the process logs nothing and leaves the handle.
\<close>

theorem start_registers_exit_observer_counterexample:
  "start example_config readonly_world =
     Threw (EACCES ''app.pid'') (world_of (start example_config readonly_world))
   \<and> map cmd (spawned_by readonly_world (start example_config readonly_world)) = [''node'']
   \<and> process (world_of (start example_config readonly_world)) = Some 0
   \<and> exit_listeners (children (world_of (start example_config readonly_world)) ! 0) = []
   \<and> deliver example_config (ChildExit 0 (Some 0))
        (world_of (start example_config readonly_world)) =
      Done ((world_of (start example_config readonly_world))
        \<lparr>children := [(children (world_of (start example_config readonly_world)) ! 0)
            \<lparr>exitCode := Some 0\<rparr>]\<rparr>)
   \<and> process (world_of (deliver example_config (ChildExit 0 (Some 0))
        (world_of (start example_config readonly_world)))) = Some 0
   \<and> events_of (world_of (start example_config readonly_world))
        (deliver example_config (ChildExit 0 (Some 0))
          (world_of (start example_config readonly_world))) = []"
  by (simp add: start_def start_options_def call_defs Let_def deliver_def events_of_def
      spawned_by_def readonly_world_def fresh_world_def example_config_def)

text \<open>
  C7: one invocation of \<^verbatim>\<open>restart\<close> starts the task \<^verbatim>\<open>start\<close> exactly once.
  \<^item> Handle held, exit code set: \<^verbatim>\<open>restart\<close> is \<^verbatim>\<open>gulp.start('start')\<close>, one start at once;
    the only child it adds is the new process, whose listeners are exit observers, and
    no access check is left pending.
  \<^item> Handle held, exit code not set: \<^verbatim>\<open>restart\<close> is \<^verbatim>\<open>kill()\<close> and one listener on
    \<^verbatim>\<open>'close'\<close>, and nothing else; it starts nothing at once, and the listener starts the
    task once whenever it runs. When the listeners on the \<^verbatim>\<open>'exit'\<close> of the handle are exit
    observers and no other listener waits on its \<^verbatim>\<open>'close'\<close>, the exit of the process
    starts nothing, and the exit followed by the close starts the task once.
  \<^item> No handle, PID file passes the access check: \<^verbatim>\<open>restart\<close> only issues the check; its
    callback spawns \<^verbatim>\<open>kill\<close>, registers one listener on the close of its output and
    starts nothing. The exit of \<^verbatim>\<open>kill\<close> starts nothing; the exit of \<^verbatim>\<open>kill\<close> and the close
    of its output, in either order, followed by the close of \<^verbatim>\<open>kill\<close>, start the task
    once.
  \<^item> No handle, PID file fails the access check: the state after the callback is the
    first state with the error line added; the task is never started and nothing is
    left registered or pending.
\<close>

theorem restart_starts_once:
  "(process w = Some h \<and> h < length (children w) \<and> exitCode (children w ! h) \<noteq> None \<longrightarrow>
      restart cfg w = gulp_start cfg w
      \<and> starts (world_of (restart cfg w)) = Suc (starts w)
      \<and> (\<exists>c. children (world_of (restart cfg w)) = children w @ [c]
            \<and> list_all (\<lambda>f. f = ExitObserver) (exit_listeners c)
            \<and> close_listeners c = [] \<and> stdout_close_listeners c = [])
      \<and> pending_access (world_of (restart cfg w)) = pending_access w)
   \<and> (process w = Some h \<and> h < length (children w) \<and> exitCode (children w ! h) = None \<longrightarrow>
      restart cfg w = Done (on_close h WorkerClose (kill h w))
      \<and> starts (world_of (restart cfg w)) = starts w
      \<and> close_listeners (children (world_of (restart cfg w)) ! h) =
          close_listeners (children w ! h) @ [WorkerClose]
      \<and> (\<forall>w2. starts (world_of (run_callback cfg WorkerClose w2)) = Suc (starts w2))
      \<and> (close_listeners (children w ! h) = [] \<longrightarrow>
          starts (world_of (deliver cfg (ChildClose h) (world_of (restart cfg w)))) =
            Suc (starts w))
      \<and> (list_all (\<lambda>f. f = ExitObserver) (exit_listeners (children w ! h))
          \<and> close_listeners (children w ! h) = [] \<longrightarrow>
          (\<forall>code.
             starts (world_of (deliver cfg (ChildExit h code) (world_of (restart cfg w)))) =
               starts w
             \<and> starts (world_of (deliver_all cfg [ChildExit h code, ChildClose h]
                  (world_of (restart cfg w)))) = Suc (starts w))))
   \<and> (process w = None \<and> fs_access (pidFile cfg) w = None \<longrightarrow>
      restart cfg w = Done (w\<lparr>pending_access := Suc (pending_access w)\<rparr>)
      \<and> starts (world_of (restart cfg w)) = starts w
      \<and> (\<exists>p. content (files w (pidFile cfg)) = Some p
            \<and> deliver cfg AccessCallback (world_of (restart cfg w)) =
                Done (stdout_on_close (length (children w)) KillStdoutClose
                  ((snd (spawn ''kill'' [p] False w))
                     \<lparr>process := Some (length (children w))\<rparr>)))
      \<and> starts (world_of (deliver cfg AccessCallback (world_of (restart cfg w)))) = starts w
      \<and> starts (world_of (deliver cfg (ChildStdoutClose (length (children w)))
            (world_of (deliver cfg AccessCallback (world_of (restart cfg w)))))) =
          Suc (starts w)
      \<and> (\<forall>code.
            starts (world_of (deliver_all cfg
               [AccessCallback, ChildExit (length (children w)) code]
               (world_of (restart cfg w)))) = starts w
            \<and> starts (world_of (deliver_all cfg
               [AccessCallback, ChildExit (length (children w)) code,
                ChildStdoutClose (length (children w)), ChildClose (length (children w))]
               (world_of (restart cfg w)))) = Suc (starts w)
            \<and> starts (world_of (deliver_all cfg
               [AccessCallback, ChildStdoutClose (length (children w)),
                ChildExit (length (children w)) code, ChildClose (length (children w))]
               (world_of (restart cfg w)))) = Suc (starts w)))
   \<and> (process w = None \<and> fs_access (pidFile cfg) w \<noteq> None \<longrightarrow>
      restart cfg w = Done (w\<lparr>pending_access := Suc (pending_access w)\<rparr>)
      \<and> deliver cfg AccessCallback (world_of (restart cfg w)) =
          Done (emit (ConsoleError ''No application running or PID error'') w)
      \<and> starts (world_of (restart cfg w)) = starts w
      \<and> starts (world_of (deliver cfg AccessCallback (world_of (restart cfg w)))) = starts w
      \<and> children (world_of (deliver cfg AccessCallback (world_of (restart cfg w)))) =
          children w
      \<and> pending_access (world_of (deliver cfg AccessCallback (world_of (restart cfg w)))) =
          pending_access w)"
proof (intro conjI impI allI)
  assume a: "process w = Some h \<and> h < length (children w) \<and> exitCode (children w ! h) \<noteq> None"
  then show r: "restart cfg w = gulp_start cfg w"
    by (auto simp: restart_def)
  show "starts (world_of (restart cfg w)) = Suc (starts w)"
    using r by (simp add: gulp_start_starts)
  show "\<exists>c. children (world_of (restart cfg w)) = children w @ [c]
            \<and> list_all (\<lambda>f. f = ExitObserver) (exit_listeners c)
            \<and> close_listeners c = [] \<and> stdout_close_listeners c = []"
    using r gulp_start_new_child [of cfg w] by simp
  show "pending_access (world_of (restart cfg w)) = pending_access w"
    using r by (simp add: gulp_start_pending)
next
  assume a: "process w = Some h \<and> h < length (children w) \<and> exitCode (children w ! h) = None"
  let ?w1 = "on_close h WorkerClose (kill h w)"
  show r: "restart cfg w = Done ?w1"
    using a by (simp add: restart_running)
  have s1: "starts ?w1 = starts w"
    by (simp add: starts_def on_close_def kill_def emit_def)
  show "starts (world_of (restart cfg w)) = starts w"
    using r s1 by simp
  show "close_listeners (children (world_of (restart cfg w)) ! h) =
          close_listeners (children w ! h) @ [WorkerClose]"
    using r a by (simp add: on_close_def kill_def emit_def)
  show "starts (world_of (run_callback cfg WorkerClose w2)) = Suc (starts w2)" for w2
    using gulp_start_starts [of cfg "w2\<lparr>process := None\<rparr>"]
    by (simp add: run_callback_def starts_def)
  have len: "h < length (children ?w1)"
    using a by (simp add: on_close_def kill_def emit_def)
  have ex: "exit_listeners (children ?w1 ! h) = exit_listeners (children w ! h)"
    using a by (simp add: on_close_def kill_def emit_def)
  {
    assume e: "close_listeners (children w ! h) = []"
    then have l: "close_listeners (children ?w1 ! h) = [WorkerClose]"
      using a by (simp add: on_close_def kill_def emit_def)
    have "starts (world_of (deliver cfg (ChildClose h) ?w1)) = Suc (starts ?w1)"
      using len l gulp_start_starts [of cfg "?w1\<lparr>process := None\<rparr>"]
      by (simp add: deliver_close_worker starts_def)
    then show "starts (world_of (deliver cfg (ChildClose h) (world_of (restart cfg w)))) =
            Suc (starts w)"
      using r s1 by simp
  }
  {
    fix code
    assume e: "list_all (\<lambda>f. f = ExitObserver) (exit_listeners (children w ! h))
          \<and> close_listeners (children w ! h) = []"
    then have l: "close_listeners (children ?w1 ! h) = [WorkerClose]"
      using a by (simp add: on_close_def kill_def emit_def)
    have o: "list_all (\<lambda>f. f = ExitObserver) (exit_listeners (children ?w1 ! h))"
      using e ex by simp
    show "starts (world_of (deliver cfg (ChildExit h code) (world_of (restart cfg w)))) =
               starts w"
      using running_handle_runs(1) [OF len o l, of cfg code] r s1 by simp
    show "starts (world_of (deliver_all cfg [ChildExit h code, ChildClose h]
                  (world_of (restart cfg w)))) = Suc (starts w)"
      using running_handle_runs(3) [OF len o l, of cfg code] r s1 by simp
  }
next
  assume a: "process w = None \<and> fs_access (pidFile cfg) w = None"
  let ?k = "length (children w)"
  let ?w1 = "w\<lparr>pending_access := Suc (pending_access w)\<rparr>"
  show r: "restart cfg w = Done ?w1"
    using a by (simp add: restart_def)
  show "starts (world_of (restart cfg w)) = starts w"
    using r by (simp add: starts_def)
  obtain p where p: "content (files w (pidFile cfg)) = Some p"
    and res: "deliver cfg AccessCallback (world_of (restart cfg w)) =
       Done (stdout_on_close ?k KillStdoutClose
              ((snd (spawn ''kill'' [p] False w))\<lparr>process := Some ?k\<rparr>))"
    using access_ok_result a by blast
  let ?w2 = "stdout_on_close ?k KillStdoutClose
              ((snd (spawn ''kill'' [p] False w))\<lparr>process := Some ?k\<rparr>)"
  show "\<exists>p. content (files w (pidFile cfg)) = Some p
            \<and> deliver cfg AccessCallback (world_of (restart cfg w)) =
                Done (stdout_on_close (length (children w)) KillStdoutClose
                  ((snd (spawn ''kill'' [p] False w))
                     \<lparr>process := Some (length (children w))\<rparr>))"
    using p res by blast
  have s2: "starts ?w2 = starts w"
    by (simp add: starts_def call_defs Let_def)
  have k2: "?k < length (children ?w2)" "exit_listeners (children ?w2 ! ?k) = []"
    "close_listeners (children ?w2 ! ?k) = []"
    "stdout_close_listeners (children ?w2 ! ?k) = [KillStdoutClose]"
    by (simp_all add: call_defs Let_def)
  note runs = kill_helper_runs [OF k2, of cfg]
  have res1: "deliver cfg AccessCallback ?w1 = Done ?w2"
    using res r by simp
  show "starts (world_of (deliver cfg AccessCallback (world_of (restart cfg w)))) = starts w"
    using res s2 by simp
  show "starts (world_of (deliver cfg (ChildStdoutClose ?k)
            (world_of (deliver cfg AccessCallback (world_of (restart cfg w)))))) =
          Suc (starts w)"
    using res s2 runs(2) by (simp only: world_of.simps deliver_all_one)
  fix code
  have step: "deliver_all cfg (AccessCallback # ds) (world_of (restart cfg w)) =
      deliver_all cfg ds ?w2" for ds
    using res1 r by simp
  show "starts (world_of (deliver_all cfg [AccessCallback, ChildExit ?k code]
               (world_of (restart cfg w)))) = starts w"
    using runs(1) [of code] s2 by (simp only: step)
  show "starts (world_of (deliver_all cfg
               [AccessCallback, ChildExit ?k code, ChildStdoutClose ?k, ChildClose ?k]
               (world_of (restart cfg w)))) = Suc (starts w)"
    using runs(3) [of code] s2 by (simp only: step)
  show "starts (world_of (deliver_all cfg
               [AccessCallback, ChildStdoutClose ?k, ChildExit ?k code, ChildClose ?k]
               (world_of (restart cfg w)))) = Suc (starts w)"
    using runs(4) [of code] s2 by (simp only: step)
next
  assume a: "process w = None \<and> fs_access (pidFile cfg) w \<noteq> None"
  then obtain e where e: "fs_access (pidFile cfg) w = Some e"
    by auto
  show res: "deliver cfg AccessCallback (world_of (restart cfg w)) =
       Done (emit (ConsoleError ''No application running or PID error'') w)"
    using access_failed_result a e by blast
  show "restart cfg w = Done (w\<lparr>pending_access := Suc (pending_access w)\<rparr>)"
    using a by (simp add: restart_def)
  show "starts (world_of (restart cfg w)) = starts w"
    using a by (simp add: restart_def starts_def)
  show "starts (world_of (deliver cfg AccessCallback (world_of (restart cfg w)))) = starts w"
    using res by (simp add: starts_def emit_def)
  show "children (world_of (deliver cfg AccessCallback (world_of (restart cfg w)))) =
          children w"
    using res by (simp add: emit_def)
  show "pending_access (world_of (deliver cfg AccessCallback (world_of (restart cfg w)))) =
          pending_access w"
    using res by (simp add: emit_def)
qed

theorem restart_starts_once_witness:
  "(process exited_world = Some 0 \<and> 0 < length (children exited_world)
      \<and> exitCode (children exited_world ! 0) \<noteq> None
      \<and> starts (world_of (restart example_config exited_world)) = 1)
   \<and> (process running_world = Some 0 \<and> 0 < length (children running_world)
      \<and> exitCode (children running_world ! 0) = None
      \<and> list_all (\<lambda>f. f = ExitObserver) (exit_listeners (children running_world ! 0))
      \<and> close_listeners (children running_world ! 0) = []
      \<and> starts (world_of (restart example_config running_world)) = 0
      \<and> starts (world_of (deliver example_config (ChildClose 0)
            (world_of (restart example_config running_world)))) = 1
      \<and> starts (world_of (deliver example_config (ChildExit 0 None)
            (world_of (restart example_config running_world)))) = 0
      \<and> starts (world_of (deliver_all example_config [ChildExit 0 None, ChildClose 0]
            (world_of (restart example_config running_world)))) = 1)
   \<and> (process stale_world = None \<and> fs_access (pidFile example_config) stale_world = None
      \<and> starts (world_of (deliver example_config AccessCallback
            (world_of (restart example_config stale_world)))) = 0
      \<and> starts (world_of (deliver example_config (ChildStdoutClose 0)
            (world_of (deliver example_config AccessCallback
               (world_of (restart example_config stale_world)))))) = 1
      \<and> starts (world_of (deliver_all example_config
            [AccessCallback, ChildExit 0 (Some 0), ChildStdoutClose 0, ChildClose 0]
            (world_of (restart example_config stale_world)))) = 1
      \<and> starts (world_of (deliver_all example_config
            [AccessCallback, ChildStdoutClose 0, ChildExit 0 (Some 0), ChildClose 0]
            (world_of (restart example_config stale_world)))) = 1)
   \<and> (process fresh_world = None \<and> fs_access (pidFile example_config) fresh_world \<noteq> None
      \<and> starts (world_of (deliver example_config AccessCallback
            (world_of (restart example_config fresh_world)))) = 0)"
proof -
  have e: "process exited_world = Some 0 \<and> 0 < length (children exited_world)
      \<and> exitCode (children exited_world ! 0) \<noteq> None"
    by (simp add: exited_world_simps)
  have r: "process running_world = Some 0 \<and> 0 < length (children running_world)
      \<and> exitCode (children running_world ! 0) = None"
    by (simp add: running_world_simps)
  have rl: "close_listeners (children running_world ! 0) = []"
    by (simp add: running_world_simps)
  have ro: "list_all (\<lambda>f. f = ExitObserver) (exit_listeners (children running_world ! 0))"
    by (simp add: running_world_simps)
  have s: "process stale_world = None \<and> fs_access (pidFile example_config) stale_world = None"
    by (simp add: stale_world_simps)
  have sl: "length (children stale_world) = 0"
    by (simp add: stale_world_simps)
  have f: "process fresh_world = None \<and> fs_access (pidFile example_config) fresh_world \<noteq> None"
    by (simp add: fresh_world_simps fs_access_def)
  have "starts (world_of (restart example_config exited_world)) = Suc (starts exited_world)"
    using restart_starts_once [of exited_world 0 example_config] e by blast
  then have c1: "starts (world_of (restart example_config exited_world)) = 1"
    by (simp add: example_starts)
  have "starts (world_of (restart example_config running_world)) = starts running_world
      \<and> starts (world_of (deliver example_config (ChildClose 0)
            (world_of (restart example_config running_world)))) = Suc (starts running_world)
      \<and> starts (world_of (deliver example_config (ChildExit 0 None)
            (world_of (restart example_config running_world)))) = starts running_world
      \<and> starts (world_of (deliver_all example_config [ChildExit 0 None, ChildClose 0]
            (world_of (restart example_config running_world)))) = Suc (starts running_world)"
    using restart_starts_once [of running_world 0 example_config] r rl ro by blast
  then have c2: "starts (world_of (restart example_config running_world)) = 0
      \<and> starts (world_of (deliver example_config (ChildClose 0)
            (world_of (restart example_config running_world)))) = 1
      \<and> starts (world_of (deliver example_config (ChildExit 0 None)
            (world_of (restart example_config running_world)))) = 0
      \<and> starts (world_of (deliver_all example_config [ChildExit 0 None, ChildClose 0]
            (world_of (restart example_config running_world)))) = 1"
    by (simp add: example_starts)
  have "starts (world_of (deliver example_config AccessCallback
            (world_of (restart example_config stale_world)))) = starts stale_world
      \<and> starts (world_of (deliver example_config (ChildStdoutClose 0)
            (world_of (deliver example_config AccessCallback
               (world_of (restart example_config stale_world)))))) = Suc (starts stale_world)
      \<and> starts (world_of (deliver_all example_config
            [AccessCallback, ChildExit 0 (Some 0), ChildStdoutClose 0, ChildClose 0]
            (world_of (restart example_config stale_world)))) = Suc (starts stale_world)
      \<and> starts (world_of (deliver_all example_config
            [AccessCallback, ChildStdoutClose 0, ChildExit 0 (Some 0), ChildClose 0]
            (world_of (restart example_config stale_world)))) = Suc (starts stale_world)"
    using restart_starts_once [of stale_world 0 example_config] s unfolding sl by blast
  then have c3: "starts (world_of (deliver example_config AccessCallback
            (world_of (restart example_config stale_world)))) = 0
      \<and> starts (world_of (deliver example_config (ChildStdoutClose 0)
            (world_of (deliver example_config AccessCallback
               (world_of (restart example_config stale_world)))))) = 1
      \<and> starts (world_of (deliver_all example_config
            [AccessCallback, ChildExit 0 (Some 0), ChildStdoutClose 0, ChildClose 0]
            (world_of (restart example_config stale_world)))) = 1
      \<and> starts (world_of (deliver_all example_config
            [AccessCallback, ChildStdoutClose 0, ChildExit 0 (Some 0), ChildClose 0]
            (world_of (restart example_config stale_world)))) = 1"
    by (simp add: example_starts)
  have "starts (world_of (deliver example_config AccessCallback
            (world_of (restart example_config fresh_world)))) = starts fresh_world"
    using restart_starts_once [of fresh_world 0 example_config] f by blast
  then have c4: "starts (world_of (deliver example_config AccessCallback
            (world_of (restart example_config fresh_world)))) = 0"
    by (simp add: example_starts)
  show ?thesis
    using e r rl ro s f c1 c2 c3 c4 by blast
qed



text \<open>
  C10: with no handle held and a PID file that passes the access check, the callback of
  the check assigns to the variable \<^verbatim>\<open>process\<close> the handle of the \<^verbatim>\<open>kill\<close> command, spawned
  with the content of the PID file as its argument. No listener is registered on the
  \<^verbatim>\<open>'exit'\<close> or \<^verbatim>\<open>'close'\<close> event of that handle, so neither event changes the variable; the
  \<^verbatim>\<open>'close'\<close> of its standard output starts the task \<^verbatim>\<open>start\<close>, after which the variable
  refers to the new \<^verbatim>\<open>node\<close> process.
\<close>

theorem restart_handle_is_kill_helper:
  assumes "process w = None" and "fs_access (pidFile cfg) w = None"
  shows "\<exists>p w2. content (files w (pidFile cfg)) = Some p
     \<and> deliver cfg AccessCallback (world_of (restart cfg w)) = Done w2
     \<and> process w2 = Some (length (children w))
     \<and> cmd (children w2 ! length (children w)) = ''kill''
     \<and> args (children w2 ! length (children w)) = [p]
     \<and> exit_listeners (children w2 ! length (children w)) = []
     \<and> close_listeners (children w2 ! length (children w)) = []
     \<and> stdout_close_listeners (children w2 ! length (children w)) = [KillStdoutClose]
     \<and> (\<forall>code. process (world_of (deliver cfg (ChildExit (length (children w)) code) w2)) =
           Some (length (children w)))
     \<and> process (world_of (deliver cfg (ChildClose (length (children w))) w2)) =
           Some (length (children w))
     \<and> process (world_of (deliver cfg (ChildStdoutClose (length (children w))) w2)) =
           Some (Suc (length (children w)))
     \<and> cmd (children (world_of (deliver cfg (ChildStdoutClose (length (children w))) w2))
           ! Suc (length (children w))) = ''node''"
proof -
  obtain p where p: "content (files w (pidFile cfg)) = Some p"
    and res: "deliver cfg AccessCallback (world_of (restart cfg w)) =
       Done (stdout_on_close (length (children w)) KillStdoutClose
              ((snd (spawn ''kill'' [p] False w))\<lparr>process := Some (length (children w))\<rparr>))"
    using access_ok_result assms by blast
  let ?k = "length (children w)"
  let ?w2 = "stdout_on_close ?k KillStdoutClose
              ((snd (spawn ''kill'' [p] False w))\<lparr>process := Some ?k\<rparr>)"
  have pr: "process ?w2 = Some ?k"
    by (simp add: call_defs Let_def)
  have len: "length (children ?w2) = Suc ?k"
    by (simp add: call_defs Let_def)
  have ch: "cmd (children ?w2 ! ?k) = ''kill''" "args (children ?w2 ! ?k) = [p]"
    "exit_listeners (children ?w2 ! ?k) = []" "close_listeners (children ?w2 ! ?k) = []"
    "stdout_close_listeners (children ?w2 ! ?k) = [KillStdoutClose]"
    by (simp_all add: call_defs Let_def)
  have ex: "process (world_of (deliver cfg (ChildExit ?k code) ?w2)) = Some ?k" for code
    using ch(3) len pr by (simp add: deliver_def)
  have cl: "process (world_of (deliver cfg (ChildClose ?k) ?w2)) = Some ?k"
    using ch(4) len pr by (simp add: deliver_def)
  have so: "world_of (deliver cfg (ChildStdoutClose ?k) ?w2) = world_of (gulp_start cfg ?w2)"
    using ch(5) len
    by (simp add: deliver_def run_listeners_single run_callback_def del: run_listeners.simps)
  have np: "process (world_of (deliver cfg (ChildStdoutClose ?k) ?w2)) = Some (Suc ?k)"
    using so gulp_start_process [of cfg ?w2] len by simp
  obtain c where "children (world_of (gulp_start cfg ?w2)) = children ?w2 @ [c]"
    and "cmd c = ''node''"
    using gulp_start_children by blast
  then have nc: "cmd (children (world_of (deliver cfg (ChildStdoutClose ?k) ?w2)) ! Suc ?k) =
      ''node''"
    using so len by (simp add: nth_append)
  show ?thesis
    using p res pr ch ex cl np nc by blast
qed

theorem restart_handle_is_kill_helper_witness:
  "process stale_world = None \<and> fs_access (pidFile example_config) stale_world = None
   \<and> (\<exists>w2. deliver example_config AccessCallback
               (world_of (restart example_config stale_world)) = Done w2
        \<and> process w2 = Some 0
        \<and> cmd (children w2 ! 0) = ''kill''
        \<and> args (children w2 ! 0) = [''4000'']
        \<and> exit_listeners (children w2 ! 0) = []
        \<and> process (world_of (deliver example_config (ChildExit 0 (Some 0)) w2)) = Some 0
        \<and> process (world_of (deliver example_config (ChildStdoutClose 0) w2)) = Some 1
        \<and> cmd (children (world_of (deliver example_config (ChildStdoutClose 0) w2)) ! 1) =
            ''node'')"
proof -
  have h1: "process stale_world = None" by (simp add: stale_world_simps)
  have h2: "fs_access (pidFile example_config) stale_world = None"
    by (simp add: stale_world_simps)
  have len: "length (children stale_world) = 0" by (simp add: stale_world_simps)
  have c: "content (files stale_world (pidFile example_config)) = Some ''4000''"
    by (simp add: stale_world_simps example_config_simps)
  obtain p w2 where "content (files stale_world (pidFile example_config)) = Some p"
    and "deliver example_config AccessCallback
               (world_of (restart example_config stale_world)) = Done w2"
    and "process w2 = Some 0"
    and "cmd (children w2 ! 0) = ''kill''"
    and "args (children w2 ! 0) = [p]"
    and "exit_listeners (children w2 ! 0) = []"
    and "process (world_of (deliver example_config (ChildExit 0 (Some 0)) w2)) = Some 0"
    and "process (world_of (deliver example_config (ChildStdoutClose 0) w2)) = Some (Suc 0)"
    and "cmd (children (world_of (deliver example_config (ChildStdoutClose 0) w2)) ! Suc 0) =
            ''node''"
    using restart_handle_is_kill_helper [OF h1 h2] unfolding len by blast
  then show ?thesis
    using h1 h2 c by auto
qed

subsection \<open>\<^verbatim>\<open>adaptPath\<close>\<close>

lemma string_to_number_Array: "string_to_number ''Array'' = NaN"
  by (simp add: string_to_number_def trim_def is_space_def is_digit_def)

text \<open>
  C9: for every value, whatever its type, \<open>adaptPath\<close> returns its argument unchanged
  and does not throw: \<^verbatim>\<open>typeof\<close> never yields \<^verbatim>\<open>'String'\<close>, and \<^verbatim>\<open>!typeof path\<close> is the
  boolean \<^verbatim>\<open>false\<close>, which is not equal to \<^verbatim>\<open>'Array'\<close>.
\<close>

theorem adaptPath_identity: "adaptPath path = Inr path"
proof -
  have no_wrap: "\<not> str_loose_eq (js_typeof path) ''String''"
    by (cases path) (simp_all add: str_loose_eq_def)
  have nonempty: "js_typeof path \<noteq> []"
    by (cases path) simp_all
  have no_throw: "\<not> bool_loose_eq_str (js_not (JStr (js_typeof path))) ''Array''"
    using nonempty
    by (simp add: bool_loose_eq_str_def js_not_def bool_to_number_def string_to_number_Array)
  show ?thesis
    using no_wrap no_throw by (simp add: adaptPath_def)
qed

end
